theory Spec2Isabelle
  imports Complex_Main "HOL-Library.Log_Nat"
begin

section \<open>Python values shared by the services\<close>

text \<open>
  Exceptions of the Python code are values. \<open>PyException\<close> stands for any exception of
  an external library (ffmpeg, Whisper, Redis, json), carrying its message.
\<close>

datatype py_error =
    ZeroDivisionError
  | AttributeError
  | CalledProcessError
  | PyException string

section \<open>Python floats\<close>

text \<open>
  A Python float is an IEEE 754 binary64 number. A finite float is modelled by the real
  number it denotes, and every arithmetic operation returns the exact result rounded to
  the nearest float, ties to the even significand. Infinities and NaN, that is results
  of magnitude \<open>2^1024\<close> or more, are outside the model.
\<close>

text \<open>Rounding a real to the nearest integer, a tie to the even one.\<close>

definition round_half_even :: "real \<Rightarrow> int" where
  "round_half_even x =
     (let f = \<lfloor>x\<rfloor>; r = x - of_int f
      in if r < 1 / 2 then f
         else if 1 / 2 < r then f + 1
         else if even f then f else f + 1)"

text \<open>
  The exponent \<open>e\<close> of a positive real \<open>x\<close>, with \<open>2^e \<le> x < 2^(e+1)\<close>, computed
  from the bit length of an integer.
\<close>

definition ilog2 :: "real \<Rightarrow> int" where
  "ilog2 x = (if 1 \<le> x then bitlen \<lfloor>x\<rfloor> - 1 else - bitlen (\<lceil>1 / x\<rceil> - 1))"

text \<open>
  The exponent of the last place of the float nearest to \<open>x\<close>: 53 significant bits, and
  never below \<open>-1074\<close> (subnormal numbers).
\<close>

definition ulp_exponent :: "real \<Rightarrow> int" where
  "ulp_exponent x = max (ilog2 \<bar>x\<bar> - 52) (- 1074)"

definition binary64 :: "real \<Rightarrow> real" where
  "binary64 x =
     (if x = 0 then 0
      else of_int (round_half_even (x / 2 powi ulp_exponent x)) * 2 powi ulp_exponent x)"

text \<open>
  The conversion of a Python int that meets a float in an operation (an int of
  magnitude \<open>2^1024\<close> or more raises \<open>OverflowError\<close> instead, which is not
  modelled), the product and the quotient of two floats (the divisor not zero).
\<close>

definition float_of_int :: "int \<Rightarrow> real" where
  "float_of_int i = binary64 (of_int i)"

definition float_mul :: "real \<Rightarrow> real \<Rightarrow> real" where
  "float_mul a b = binary64 (a * b)"

definition float_div :: "real \<Rightarrow> real \<Rightarrow> real" where
  "float_div a b = binary64 (a / b)"



section \<open>mpi/mpi_service.py: the chunk planner\<close>

text \<open>
  A chunk is the dict built in the loop of \<open>split_video_into_chunks\<close>, with the
  keys \<open>chunk_id\<close>, \<open>start_time\<close>, \<open>end_time\<close> and \<open>video_path\<close>.
\<close>

record chunk =
  chunk_id :: int
  start_time :: real
  end_time :: real
  video_path :: string

text \<open>
  The body of the loop: the chunk of index \<open>i\<close>, with
  \<open>start_time = i * chunk_duration\<close> and
  \<open>end_time = min((i + 1) * chunk_duration, duration)\<close>. The index is an int and
  \<open>chunk_duration\<close> a float: the int is converted and the product is rounded.
\<close>

definition plan_chunk :: "string \<Rightarrow> real \<Rightarrow> real \<Rightarrow> int \<Rightarrow> chunk" where
  "plan_chunk path duration chunk_duration i =
     \<lparr>chunk_id = i,
      start_time = float_mul (float_of_int i) chunk_duration,
      end_time = min (float_mul (float_of_int (i + 1)) chunk_duration) duration,
      video_path = path\<rparr>"

text \<open>
  \<open>for i in range(num_chunks): chunks.append(...)\<close>: the indices are
  \<open>[0..num_chunks - 1]\<close>, which is empty when \<open>num_chunks \<le> 0\<close>, and each
  iteration appends one chunk to the list built so far.
\<close>

fun append_chunks :: "string \<Rightarrow> real \<Rightarrow> real \<Rightarrow> int list \<Rightarrow> chunk list \<Rightarrow> chunk list" where
  "append_chunks path duration chunk_duration [] chunks = chunks"
| "append_chunks path duration chunk_duration (i # is) chunks =
     append_chunks path duration chunk_duration is
       (chunks @ [plan_chunk path duration chunk_duration i])"

text \<open>
  \<open>split_video_into_chunks\<close>. The duration is what \<open>VideoFileClip(video_path).duration\<close>
  returned, a parameter here. \<open>duration / num_chunks\<close> divides a float by an int and
  raises \<open>ZeroDivisionError\<close> when \<open>num_chunks\<close> is 0. There is no other check.
\<close>

definition split_video_into_chunks :: "string \<Rightarrow> real \<Rightarrow> int \<Rightarrow> py_error + chunk list" where
  "split_video_into_chunks path duration num_chunks =
     (if num_chunks = 0 then Inl ZeroDivisionError
      else let chunk_duration = float_div duration (float_of_int num_chunks)
           in Inr (append_chunks path duration chunk_duration [0..num_chunks - 1] []))"

section \<open>mpi/mpi_service.py: unit results and the master's merge step\<close>

text \<open>
  One entry of \<open>transcriptions\<close>: the dict with the keys \<open>start\<close>, \<open>end\<close>, \<open>text\<close> and
  \<open>translated_text\<close> (\<open>None\<close> when no target language is given). The keys \<open>end\<close> and
  \<open>text\<close> are reserved words of Isabelle, hence \<open>end_abs\<close> and \<open>text_src\<close>.
\<close>

record transcription =
  start :: real
  end_abs :: real
  text_src :: string
  translated_text :: "string option"

text \<open>
  What \<open>process_chunk\<close> returns: the dict with the keys \<open>chunk_id\<close>,
  \<open>transcriptions\<close> and \<open>language\<close>. It has no status and no error entry. The
  merge step below reads these three keys only and is defined on every dict that has
  them, that is on every extension of the record.
\<close>

record unit_result =
  result_chunk_id :: int
  transcriptions :: "transcription list"
  language :: string

text \<open>
  What the master returns: the dict with the keys \<open>transcriptions\<close>, \<open>language\<close>,
  \<open>total_segments\<close> and \<open>workers_used\<close>.
\<close>

record aggregate_result =
  all_transcriptions :: "transcription list"
  detected_language :: string
  total_segments :: nat
  workers_used :: nat

text \<open>
  \<open>for chunk_result in all_results: all_transcriptions.extend(chunk_result['transcriptions'])\<close>
\<close>

fun extend_all :: "'a unit_result_scheme list \<Rightarrow> transcription list \<Rightarrow> transcription list" where
  "extend_all [] acc = acc"
| "extend_all (chunk_result # rest) acc = extend_all rest (acc @ transcriptions chunk_result)"

text \<open>
  The master's branch of \<open>parallel_process_video\<close> after the gather (lines 182 to 203),
  on the list \<open>all_results\<close> that \<open>comm.gather\<close> returned and \<open>self.size\<close>. Python's
  \<open>list.sort(key=...)\<close> is a stable sort by the key; \<open>sort_key\<close> is one, and a stable
  sort has only one result. The scatter and the gather themselves are not modelled.
\<close>

definition aggregate_results :: "nat \<Rightarrow> 'a unit_result_scheme list \<Rightarrow> aggregate_result" where
  "aggregate_results world_size all_results =
     (let sorted_results = sort_key result_chunk_id all_results;
          merged = extend_all sorted_results [];
          sorted_transcriptions = sort_key start merged
      in \<lparr>all_transcriptions = sorted_transcriptions,
          detected_language =
            (case sorted_results of [] \<Rightarrow> ''unknown'' | first # _ \<Rightarrow> language first),
          total_segments = length sorted_transcriptions,
          workers_used = world_size\<rparr>)"

section \<open>mpi/mpi_service.py: the unit executor\<close>

text \<open>
  \<open>str(n)\<close> of a Python int: decimal digits, with a minus sign when negative.
\<close>

fun str_nat :: "nat \<Rightarrow> string" where
  "str_nat n =
     (if n < 10 then [''0123456789'' ! n]
      else str_nat (n div 10) @ [''0123456789'' ! (n mod 10)])"

declare str_nat.simps [simp del]

definition str_int :: "int \<Rightarrow> string" where
  "str_int i = (if i < 0 then ''-'' @ str_nat (nat (- i)) else str_nat (nat i))"

text \<open>
  \<open>workspace / f"chunk_{chunk_id}_rank_{self.rank}.wav"\<close> with the workspace
  \<open>/mpi/workspace\<close>.
\<close>

definition audio_chunk_path :: "int \<Rightarrow> int \<Rightarrow> string" where
  "audio_chunk_path cid rank =
     ''/mpi/workspace/chunk_'' @ str_int cid @ ''_rank_'' @ str_int rank @ ''.wav''"

text \<open>
  A segment as Whisper yields it: \<open>segment.start\<close>, \<open>segment.end\<close> and
  \<open>segment.text\<close>, with times relative to the start of the extracted audio.
\<close>

record whisper_segment =
  seg_start :: real
  seg_end :: real
  seg_text :: string

text \<open>
  \<open>str.strip()\<close>: leading and trailing whitespace removed. The whitespace characters
  are the ASCII ones that Python's \<open>str.isspace\<close> accepts; whitespace outside ASCII is
  not treated.
\<close>

definition is_space :: "char \<Rightarrow> bool" where
  "is_space c \<longleftrightarrow>
     c \<in> set [CHR 0x09, CHR 0x0A, CHR 0x0B, CHR 0x0C, CHR 0x0D,
               CHR 0x1C, CHR 0x1D, CHR 0x1E, CHR 0x1F, CHR 0x20]"

definition strip :: "string \<Rightarrow> string" where
  "strip s = rev (dropWhile is_space (rev (dropWhile is_space s)))"

text \<open>
  The translation of one segment's text. \<open>translate target text\<close> is what
  \<open>GoogleTranslator(source='auto', target=target).translate(text)\<close> does: it returns
  the translation or raises. \<open>if target_language:\<close> holds for a non-empty string only;
  any exception is caught and the text is carried over untranslated.
\<close>

definition translate_text ::
  "(string \<Rightarrow> string \<Rightarrow> py_error + string) \<Rightarrow> string option \<Rightarrow> string \<Rightarrow> string option" where
  "translate_text translate target_language txt =
     (case target_language of
        None \<Rightarrow> None
      | Some target \<Rightarrow>
          if target = [] then None
          else (case translate target txt of
                  Inr translated \<Rightarrow> Some translated
                | Inl e \<Rightarrow> Some txt))"

text \<open>
  The body of \<open>for segment in segments\<close>: the entry appended for one segment, its times
  shifted by the chunk's \<open>start_time\<close>.
\<close>

definition transcribe_segment ::
  "(string \<Rightarrow> string \<Rightarrow> py_error + string) \<Rightarrow> string option \<Rightarrow> real \<Rightarrow> whisper_segment
     \<Rightarrow> transcription" where
  "transcribe_segment translate target_language chunk_start segment =
     (let txt = strip (seg_text segment)
      in \<lparr>start = seg_start segment + chunk_start,
          end_abs = seg_end segment + chunk_start,
          text_src = txt,
          translated_text = translate_text translate target_language txt\<rparr>)"

fun append_transcriptions ::
  "(string \<Rightarrow> string \<Rightarrow> py_error + string) \<Rightarrow> string option \<Rightarrow> real \<Rightarrow> whisper_segment list
     \<Rightarrow> transcription list \<Rightarrow> transcription list" where
  "append_transcriptions translate target_language chunk_start [] acc = acc"
| "append_transcriptions translate target_language chunk_start (segment # segments) acc =
     append_transcriptions translate target_language chunk_start segments
       (acc @ [transcribe_segment translate target_language chunk_start segment])"

text \<open>
  What \<open>subprocess.run(cmd, capture_output=True, check=True)\<close> did: ffmpeg wrote the
  audio file and exited with 0, or the call raised; \<open>FfmpegFailed written\<close> says whether
  a file was left at the output path all the same.
\<close>

datatype ffmpeg_outcome = FfmpegDone | FfmpegFailed bool

text \<open>
  \<open>process_chunk\<close>. The rank is \<open>self.rank\<close>. The outcomes of the external calls are
  parameters: \<open>ffmpeg\<close> as above; \<open>transcribed\<close> is what
  \<open>whisper_model.transcribe\<close> and the iteration over its segments give, either an
  exception or the segments with \<open>info.language\<close> (\<open>None\<close> when \<open>info\<close> has no such
  attribute); \<open>translate\<close> as above. The file system is the set \<open>files\<close> of existing
  paths, returned as the call leaves it. The function has no \<open>try\<close> but the one around
  the translation: an exception of ffmpeg or of the transcription leaves the function
  at once, and the two lines that delete the audio file are reached only after the
  loop.
\<close>

definition process_chunk ::
  "int \<Rightarrow> chunk \<Rightarrow> ffmpeg_outcome \<Rightarrow> (py_error + whisper_segment list \<times> string option)
     \<Rightarrow> (string \<Rightarrow> string \<Rightarrow> py_error + string) \<Rightarrow> string option \<Rightarrow> string set
     \<Rightarrow> (py_error + unit_result) \<times> string set" where
  "process_chunk rank chnk ffmpeg transcribed translate target_language files =
     (let path = audio_chunk_path (chunk_id chnk) rank
      in case ffmpeg of
           FfmpegFailed written \<Rightarrow>
             (Inl CalledProcessError, if written then insert path files else files)
         | FfmpegDone \<Rightarrow>
             (let files1 = insert path files
              in case transcribed of
                   Inl e \<Rightarrow> (Inl e, files1)
                 | Inr (segments, info_language) \<Rightarrow>
                     (Inr \<lparr>result_chunk_id = chunk_id chnk,
                           transcriptions =
                             append_transcriptions translate target_language
                               (start_time chnk) segments [],
                           language =
                             (case info_language of Some l \<Rightarrow> l | None \<Rightarrow> ''unknown'')\<rparr>,
                      files1 - {path})))"

section \<open>mpi/mpi_service.py: one rank of the parallel run\<close>



section \<open>translate-backend/app/utils/job_manager.py: the job manager\<close>

datatype JobStatus = PENDING | PROCESSING | COMPLETED | FAILED

text \<open>\<open>status.value\<close>: the string an enum member stands for.\<close>

fun status_value :: "JobStatus \<Rightarrow> string" where
  "status_value PENDING = ''pending''"
| "status_value PROCESSING = ''processing''"
| "status_value COMPLETED = ''completed''"
| "status_value FAILED = ''failed''"

text \<open>
  A JSON value, for the \<open>result\<close> a job carries: a Python dict is the list of its
  items.
\<close>

datatype json =
    JNull
  | JBool bool
  | JNumber real
  | JString string
  | JArray "json list"
  | JObject "(string \<times> json) list"

type_synonym py_dict = "(string \<times> json) list"

text \<open>
  The job dict that \<open>create_job\<close> builds, key by key. \<open>status\<close> holds the value string
  of a \<open>JobStatus\<close>; \<open>None\<close> is \<open>None\<close>.
\<close>

record job =
  job_id :: string
  status :: string
  video_filename :: string
  target_language :: "string option"
  created_at :: string
  updated_at :: string
  progress :: int
  message :: string
  result :: "py_dict option"
  error :: "string option"

text \<open>
  The state of the manager after \<open>__init__\<close>. When the ping succeeded the jobs live in
  Redis (\<open>_use_redis\<close> is true and the attribute \<open>_jobs\<close> is never created); otherwise
  they live in the dict \<open>_jobs\<close>. No method changes \<open>_use_redis\<close> or creates \<open>_jobs\<close>
  later. The Redis store maps a key to the job stored under it: \<open>json.dumps\<close> on
  writing and \<open>json.loads\<close> on reading are taken to be inverse on job dicts, and the
  expiry of a key after \<open>job_ttl\<close> (24 hours) is not modelled.
\<close>

datatype job_manager =
    Redis "string \<rightharpoonup> job"
  | InMemory "string \<rightharpoonup> job"

definition job_prefix :: string where
  "job_prefix = ''job:''"

definition make_key :: "string \<Rightarrow> string" where
  "make_key jid = job_prefix @ jid"

text \<open>
  Python's truth value of an optional argument: \<open>if message:\<close> holds when the argument
  is neither \<open>None\<close> nor empty.
\<close>

fun truthy :: "'a list option \<Rightarrow> bool" where
  "truthy None = False"
| "truthy (Some xs) = (xs \<noteq> [])"

text \<open>
  \<open>create_job\<close>. \<open>uuid\<close> is \<open>str(uuid.uuid4())\<close>, \<open>now1\<close> and \<open>now2\<close> are the two
  readings of \<open>datetime.utcnow().isoformat()\<close>, and \<open>redis_ok\<close> says whether the Redis
  call of this operation succeeds. When \<open>setex\<close> raises, the handler stores into
  \<open>self._jobs\<close>, an attribute that does not exist in this state: \<open>AttributeError\<close>.
\<close>

definition create_job ::
  "job_manager \<Rightarrow> bool \<Rightarrow> string \<Rightarrow> string \<Rightarrow> string \<Rightarrow> string \<Rightarrow> string option
     \<Rightarrow> py_error + string \<times> job_manager" where
  "create_job mgr redis_ok uuid now1 now2 filename target =
     (let job_data =
            \<lparr>job_id = uuid,
             status = status_value PENDING,
             video_filename = filename,
             target_language = target,
             created_at = now1,
             updated_at = now2,
             progress = 0,
             message = ''Job created, waiting to start...'',
             result = None,
             error = None\<rparr>
      in case mgr of
           Redis store \<Rightarrow>
             if redis_ok then Inr (uuid, Redis (store(make_key uuid \<mapsto> job_data)))
             else Inl AttributeError
         | InMemory jobs \<Rightarrow> Inr (uuid, InMemory (jobs(uuid \<mapsto> job_data))))"

text \<open>
  \<open>get_job\<close>. When the Redis call raises, the handler finds no attribute \<open>_jobs\<close> and
  returns \<open>None\<close>.
\<close>

definition get_job :: "job_manager \<Rightarrow> bool \<Rightarrow> string \<Rightarrow> job option" where
  "get_job mgr redis_ok jid =
     (case mgr of
        Redis store \<Rightarrow> if redis_ok then store (make_key jid) else None
      | InMemory jobs \<Rightarrow> jobs jid)"

text \<open>
  The five conditional assignments of \<open>update_job\<close> and the refresh of \<open>updated_at\<close>.
  \<open>if status:\<close> tests the enum member, a string that is never empty;
  \<open>if progress is not None:\<close> lets every number through; \<open>if message:\<close>, \<open>if result:\<close>
  and \<open>if error:\<close> test the truth value.
\<close>

definition apply_update ::
  "job \<Rightarrow> JobStatus option \<Rightarrow> int option \<Rightarrow> string option \<Rightarrow> py_dict option \<Rightarrow> string option
     \<Rightarrow> string \<Rightarrow> job" where
  "apply_update j new_status new_progress new_message new_result new_error now =
     (let j1 = (case new_status of
                  None \<Rightarrow> j
                | Some s \<Rightarrow> if status_value s \<noteq> [] then j\<lparr>status := status_value s\<rparr> else j);
          j2 = (case new_progress of None \<Rightarrow> j1 | Some p \<Rightarrow> j1\<lparr>progress := p\<rparr>);
          j3 = (if truthy new_message then j2\<lparr>message := the new_message\<rparr> else j2);
          j4 = (if truthy new_result then j3\<lparr>result := new_result\<rparr> else j3);
          j5 = (if truthy new_error then j4\<lparr>error := new_error\<rparr> else j4)
      in j5\<lparr>updated_at := now\<rparr>)"

text \<open>
  \<open>update_job\<close>: the job is read with \<open>get_job\<close> (\<open>get_ok\<close> for its Redis call),
  changed, and written back (\<open>set_ok\<close> for the \<open>setex\<close>). It returns whether the update
  was stored, with the manager as it is afterwards. There is no test of the job's
  current status.
\<close>

definition update_job ::
  "job_manager \<Rightarrow> bool \<Rightarrow> bool \<Rightarrow> string \<Rightarrow> string \<Rightarrow> JobStatus option \<Rightarrow> int option
     \<Rightarrow> string option \<Rightarrow> py_dict option \<Rightarrow> string option \<Rightarrow> bool \<times> job_manager" where
  "update_job mgr get_ok set_ok now jid new_status new_progress new_message new_result new_error =
     (case get_job mgr get_ok jid of
        None \<Rightarrow> (False, mgr)
      | Some j \<Rightarrow>
          (let j' = apply_update j new_status new_progress new_message new_result new_error now
           in case mgr of
                Redis store \<Rightarrow>
                  if set_ok then (True, Redis (store(make_key jid \<mapsto> j')))
                  else (False, mgr)
              | InMemory jobs \<Rightarrow> (True, InMemory (jobs(jid \<mapsto> j')))))"

text \<open>Whether the calls of an operation reach the store: always so in memory.\<close>

fun store_reached :: "job_manager \<Rightarrow> bool \<Rightarrow> bool" where
  "store_reached (Redis store) redis_ok = redis_ok"
| "store_reached (InMemory jobs) redis_ok = True"

text \<open>A terminal status: \<open>completed\<close> or \<open>failed\<close>.\<close>

definition terminal :: "job \<Rightarrow> bool" where
  "terminal j \<longleftrightarrow> status j = status_value COMPLETED \<or> status j = status_value FAILED"

section \<open>translate-backend/app/services/MPITranslationService.py: the wrapper\<close>

text \<open>
  The service object after \<open>__init__\<close>: \<open>mpi_enabled\<close> is whether \<open>which mpirun\<close>
  succeeded; the other attributes are constants.
\<close>

record mpi_translation_service =
  mpi_enabled :: bool
  mpi_hostfile :: string
  mpi_script :: string
  workspace :: string

definition new_service :: "bool \<Rightarrow> mpi_translation_service" where
  "new_service mpi_available =
     \<lparr>mpi_enabled = mpi_available,
      mpi_hostfile = ''/etc/mpi/hostfile'',
      mpi_script = ''/mpi/mpi_service.py'',
      workspace = ''/mpi/workspace''\<rparr>"

text \<open>
  \<open>should_use_mpi\<close>. \<open>duration\<close> is what reading \<open>VideoFileClip(video_path).duration\<close>
  gave: the duration in seconds or an exception, which is caught.
\<close>

definition should_use_mpi :: "mpi_translation_service \<Rightarrow> py_error + real \<Rightarrow> bool" where
  "should_use_mpi svc duration =
     (if \<not> mpi_enabled svc then False
      else case duration of
             Inr d \<Rightarrow> d > 60
           | Inl e \<Rightarrow> False)"

text \<open>
  What \<open>subprocess.run(cmd, ..., timeout=600)\<close> did: it ran out of time, raised another
  exception, or returned with an exit code.
\<close>

datatype mpirun_outcome = TimeoutExpired | RunFailed py_error | Exited int

text \<open>\<open>Path(video_path).name\<close>: what follows the last slash.\<close>

definition path_name :: "string \<Rightarrow> string" where
  "path_name p = rev (takeWhile (\<lambda>c. c \<noteq> CHR ''/'') (rev p))"

text \<open>
  The video path handed to the workers: a path outside the workspace is replaced by the
  path of its copy in the workspace.
\<close>

definition workspace_video_path :: "mpi_translation_service \<Rightarrow> string \<Rightarrow> string" where
  "workspace_video_path svc path =
     (if take (length (workspace svc)) path = workspace svc then path
      else workspace svc @ ''/'' @ path_name path)"

text \<open>The command line; the target language is appended when it is not empty.\<close>

definition mpi_command ::
  "mpi_translation_service \<Rightarrow> string \<Rightarrow> string option \<Rightarrow> int \<Rightarrow> string list" where
  "mpi_command svc path target num_workers =
     [''mpirun'', ''-np'', str_int num_workers, ''-hostfile'', mpi_hostfile svc,
      ''--allow-run-as-root'', ''python3'', mpi_script svc, workspace_video_path svc path]
     @ (if truthy target then [the target] else [])"

text \<open>
  \<open>process_video_parallel\<close>. The world outside is given by three parameters:
  \<open>prepared\<close>, whether creating the workspace and copying the video passed without an
  exception; \<open>mpirun\<close>, the outcome of running a command line; and \<open>result_file\<close>, the
  state of \<open>mpi_result.json\<close> after the run (\<open>None\<close> when it does not exist, an error
  when it cannot be read as JSON). \<open>None\<close> is returned when MPI is not enabled, without
  anything being run, and on every failure.
\<close>

definition process_video_parallel ::
  "mpi_translation_service \<Rightarrow> string \<Rightarrow> string option \<Rightarrow> int \<Rightarrow> bool
     \<Rightarrow> (string list \<Rightarrow> mpirun_outcome) \<Rightarrow> (py_error + aggregate_result) option
     \<Rightarrow> aggregate_result option" where
  "process_video_parallel svc path target num_workers prepared mpirun result_file =
     (if \<not> mpi_enabled svc then None
      else if \<not> prepared then None
      else case mpirun (mpi_command svc path target num_workers) of
             TimeoutExpired \<Rightarrow> None
           | RunFailed e \<Rightarrow> None
           | Exited returncode \<Rightarrow>
               if returncode \<noteq> 0 then None
               else (case result_file of
                       None \<Rightarrow> None
                     | Some (Inl e) \<Rightarrow> None
                     | Some (Inr mpi_result) \<Rightarrow> Some mpi_result))"

section \<open>Example values\<close>

text \<open>Concrete inputs at which the theorems below are evaluated.\<close>

definition example_chunk :: chunk where
  "example_chunk =
     \<lparr>chunk_id = 1, start_time = 60, end_time = 120,
      video_path = ''/mpi/workspace/video.mp4''\<rparr>"

definition translate_offline :: "string \<Rightarrow> string \<Rightarrow> py_error + string" where
  "translate_offline target txt = Inl (PyException ''connection refused'')"

definition completed_job :: job where
  "completed_job =
     \<lparr>job_id = ''j1'', status = ''completed'', video_filename = ''video.mp4'',
      target_language = Some ''id'', created_at = ''2024-01-01T00:00:00'',
      updated_at = ''2024-01-01T00:05:00'', progress = 100, message = ''Done'',
      result = Some [(''total_segments'', JNumber 3)], error = None\<rparr>"

definition mpirun_exits_0 :: "string list \<Rightarrow> mpirun_outcome" where
  "mpirun_exits_0 cmd = Exited 0"

definition example_aggregate :: aggregate_result where
  "example_aggregate =
     \<lparr>all_transcriptions =
        [\<lparr>start = 0, end_abs = 5, text_src = ''a'', translated_text = None\<rparr>],
      detected_language = ''en'', total_segments = 1, workers_used = 1\<rparr>"




section \<open>Properties of the float model\<close>


lemma round_half_even_of_int [simp]: "round_half_even (of_int k) = k"
  by (simp add: round_half_even_def)

lemma two_powi_nat: "0 \<le> b \<Longrightarrow> (2::real) powi b = 2 ^ nat b"
  by (simp add: power_int_def)

lemma pow2_le_of_int: "(2::int) ^ n \<le> m \<Longrightarrow> (2::real) ^ n \<le> of_int m"
proof -
  assume "(2::int) ^ n \<le> m"
  then have "(of_int ((2::int) ^ n) :: real) \<le> of_int m" by (simp only: of_int_le_iff)
  then show ?thesis by simp
qed

lemma of_int_succ_le_pow2: "m + 1 \<le> (2::int) ^ n \<Longrightarrow> of_int m + 1 \<le> (2::real) ^ n"
proof -
  assume "m + 1 \<le> (2::int) ^ n"
  then have "(of_int (m + 1) :: real) \<le> of_int ((2::int) ^ n)" by (simp only: of_int_le_iff)
  then show ?thesis by simp
qed

lemma ilog2_bounds:
  assumes "0 < x"
  shows "2 powi ilog2 x \<le> x" and "x < 2 powi (ilog2 x + 1)"
proof -
  have "2 powi ilog2 x \<le> x \<and> x < 2 powi (ilog2 x + 1)"
  proof (cases "1 \<le> x")
    case True
    define m where "m = \<lfloor>x\<rfloor>"
    have m: "0 < m" "of_int m \<le> x" "x < of_int m + 1"
      using True by (simp_all add: m_def)
    define b where "b = bitlen m"
    have b: "2 ^ nat (b - 1) \<le> m" "m < 2 ^ nat b"
      using bitlen_bounds [OF m(1)] by (simp_all add: b_def)
    have b1: "1 \<le> b" using m(1) by (simp add: b_def bitlen_alt_def)
    have i: "ilog2 x = b - 1" using True by (simp add: ilog2_def b_def m_def)
    have "(2::real) ^ nat (b - 1) \<le> of_int m"
      using b(1) by (rule pow2_le_of_int)
    moreover have "(2::real) powi (b - 1) = 2 ^ nat (b - 1)"
      using b1 by (simp add: two_powi_nat)
    ultimately have lo: "2 powi (b - 1) \<le> x" using m(2) by linarith
    have "m + 1 \<le> 2 ^ nat b" using b(2) by simp
    then have "of_int m + 1 \<le> (2::real) ^ nat b"
      by (rule of_int_succ_le_pow2)
    moreover have "(2::real) powi b = 2 ^ nat b"
      using b1 by (simp add: two_powi_nat)
    ultimately have hi: "x < 2 powi b" using m(3) by linarith
    show ?thesis using lo hi by (simp add: i)
  next
    case False
    define y where "y = 1 / x"
    have y: "1 < y" using False assms by (simp add: y_def)
    define m where "m = \<lceil>y\<rceil> - 1"
    have m: "0 < m" "of_int m < y" "y \<le> of_int m + 1"
      using y by (simp_all add: m_def) linarith+
    define b where "b = bitlen m"
    have b: "2 ^ nat (b - 1) \<le> m" "m < 2 ^ nat b"
      using bitlen_bounds [OF m(1)] by (simp_all add: b_def)
    have b1: "1 \<le> b" using m(1) by (simp add: b_def bitlen_alt_def)
    have i: "ilog2 x = - b" using False by (simp add: ilog2_def b_def m_def y_def)
    have "m + 1 \<le> 2 ^ nat b" using b(2) by simp
    then have "of_int m + 1 \<le> (2::real) ^ nat b"
      by (rule of_int_succ_le_pow2)
    then have "y \<le> 2 ^ nat b" using m(3) by linarith
    then have "1 / 2 ^ nat b \<le> x"
      using assms by (simp add: y_def field_simps)
    then have lo: "2 powi (- b) \<le> x"
      using b1 by (simp add: power_int_minus two_powi_nat field_simps)
    have "(2::real) ^ nat (b - 1) \<le> of_int m"
      using b(1) by (rule pow2_le_of_int)
    then have "2 ^ nat (b - 1) < y" using m(2) by linarith
    then have "x < 1 / 2 ^ nat (b - 1)"
      using assms by (simp add: y_def field_simps)
    moreover have "(2::real) powi (- b + 1) = 1 / 2 ^ nat (b - 1)"
      using b1 power_int_minus [of "2::real" "b - 1"] by (simp add: two_powi_nat field_simps)
    ultimately have hi: "x < 2 powi (- b + 1)" by simp
    show ?thesis using lo hi by (simp add: i)
  qed
  then show "2 powi ilog2 x \<le> x" and "x < 2 powi (ilog2 x + 1)" by simp_all
qed

lemma ilog2_unique:
  assumes "2 powi e \<le> x" and "x < 2 powi (e + 1)"
  shows "ilog2 x = e"
proof -
  have pos: "0 < x" using assms(1) zero_less_power_int [of "2::real" e] by linarith
  have "2 powi e < (2::real) powi (ilog2 x + 1)"
    using assms(1) ilog2_bounds(2) [OF pos] by linarith
  then have "e < ilog2 x + 1"
    using power_int_increasing [of "ilog2 x + 1" e "2::real"] by (cases "e < ilog2 x + 1") auto
  moreover have "2 powi ilog2 x < (2::real) powi (e + 1)"
    using assms(2) ilog2_bounds(1) [OF pos] by linarith
  then have "ilog2 x < e + 1"
    using power_int_increasing [of "e + 1" "ilog2 x" "2::real"] by (cases "ilog2 x < e + 1") auto
  ultimately show ?thesis by linarith
qed

lemma binary64_zero [simp]: "binary64 0 = 0"
  by (simp add: binary64_def)

lemma ulp_exponent_eq:
  assumes "2 powi e \<le> \<bar>x\<bar>" and "\<bar>x\<bar> < 2 powi (e + 1)"
  shows "ulp_exponent x = max (e - 52) (- 1074)"
  using ilog2_unique [OF assms] by (simp add: ulp_exponent_def)

lemma binary64_eval:
  assumes "2 powi e \<le> \<bar>x\<bar>" and "\<bar>x\<bar> < 2 powi (e + 1)" and "q = max (e - 52) (- 1074)"
  shows "binary64 x = of_int (round_half_even (x / 2 powi q)) * 2 powi q"
proof -
  have "0 < \<bar>x\<bar>" using assms(1) zero_less_power_int [of "2::real" e] by linarith
  then have "x \<noteq> 0" by simp
  then show ?thesis using ulp_exponent_eq [OF assms(1,2)] assms(3) by (simp add: binary64_def)
qed

lemma binary64_exact:
  assumes "2 powi e \<le> \<bar>x\<bar>" and "\<bar>x\<bar> < 2 powi (e + 1)" and "q = max (e - 52) (- 1074)"
    and "x / 2 powi q = of_int k"
  shows "binary64 x = x"
proof -
  have "binary64 x = of_int k * 2 powi q"
    using binary64_eval [OF assms(1,2,3)] assms(4) by simp
  also have "\<dots> = x" using assms(4) by (simp add: field_simps)
  finally show ?thesis .
qed

lemma binary64_of_int:
  assumes "\<bar>k\<bar> < 2 ^ 53"
  shows "binary64 (of_int k) = of_int k"
proof (cases "k = 0")
  case True
  then show ?thesis by simp
next
  case False
  define x :: real where "x = of_int k"
  have pos: "0 < \<bar>x\<bar>" using False by (simp add: x_def)
  define e where "e = ilog2 \<bar>x\<bar>"
  have br: "2 powi e \<le> \<bar>x\<bar>" "\<bar>x\<bar> < 2 powi (e + 1)"
    using ilog2_bounds [OF pos] by (simp_all add: e_def)
  have "\<bar>x\<bar> < 2 powi 53"
    using assms by (simp add: x_def flip: of_int_abs)
  then have "2 powi e < (2::real) powi 53" using br(1) by linarith
  then have e53: "e < 53"
    using power_int_increasing [of 53 e "2::real"] by (cases "e < 53") auto
  have "1 \<le> \<bar>x\<bar>" using False by (simp add: x_def flip: of_int_abs)
  then have "2 powi 0 < (2::real) powi (e + 1)" using br(2) by simp
  then have e0: "0 \<le> e"
    using power_int_increasing [of "e + 1" 0 "2::real"] by (cases "0 < e + 1") auto
  define q where "q = max (e - 52) (- 1074)"
  have q: "q = e - 52" "q \<le> 0" using e0 e53 by (simp_all add: q_def)
  have "x / 2 powi q = x * 2 powi (- q)"
    by (simp add: power_int_minus field_simps)
  also have "\<dots> = x * 2 ^ nat (- q)" using q(2) by (simp add: two_powi_nat)
  also have "\<dots> = of_int (k * 2 ^ nat (- q))" by (simp add: x_def)
  finally have "x / 2 powi q = of_int (k * 2 ^ nat (- q))" .
  then have "binary64 x = x" using binary64_exact [OF br q_def] by blast
  then show ?thesis by (simp add: x_def)
qed


lemma binary64_numeral [simp]:
  "numeral k < (2::int) ^ 53 \<Longrightarrow> binary64 (numeral k) = numeral k"
  using binary64_of_int [of "numeral k"] by simp

lemma binary64_neg_numeral [simp]:
  "numeral k < (2::int) ^ 53 \<Longrightarrow> binary64 (- numeral k) = - numeral k"
  using binary64_of_int [of "- numeral k"] by simp

lemma binary64_one [simp]: "binary64 1 = 1"
  using binary64_of_int [of 1] by simp







section \<open>Properties of the chunk planner\<close>




lemma split_video_into_chunks_scenario_A:
  "split_video_into_chunks ''video.mp4'' 180 3 =
     Inr [\<lparr>chunk_id = 0, start_time = 0, end_time = 60, video_path = ''video.mp4''\<rparr>,
          \<lparr>chunk_id = 1, start_time = 60, end_time = 120, video_path = ''video.mp4''\<rparr>,
          \<lparr>chunk_id = 2, start_time = 120, end_time = 180, video_path = ''video.mp4''\<rparr>]"
  by (simp add: split_video_into_chunks_def plan_chunk_def upto.simps float_of_int_def
      float_mul_def float_div_def)











section \<open>Properties of the merge step\<close>

lemma extend_all_concat: "extend_all rs acc = acc @ concat (map transcriptions rs)"
  by (induction rs arbitrary: acc) simp_all

lemma all_transcriptions_aggregate:
  "all_transcriptions (aggregate_results n rs) =
     sort_key start (concat (map transcriptions (sort_key result_chunk_id rs)))"
  by (simp add: aggregate_results_def extend_all_concat Let_def)

lemma sum_list_insort_key:
  "sum_list (map h (insort_key f x xs)) = (h x :: nat) + sum_list (map h xs)"
  by (induction xs) simp_all

lemma sum_list_sort_key: "sum_list (map h (sort_key f xs)) = (sum_list (map h xs) :: nat)"
  by (induction xs) (simp_all add: sum_list_insort_key)

lemma length_concat_sort_key:
  "length (concat (map g (sort_key f xs))) = sum_list (map (length \<circ> g) xs)"
  using sum_list_sort_key [of "length \<circ> g" f xs] by (simp add: length_concat comp_def)

text \<open>
  Claim C2. For every list of gathered results the merged sequence is sorted by \<open>start\<close>,
  non-decreasing; its length, also reported as \<open>total_segments\<close>, is the sum of the
  results' segment counts; and for every start value \<open>k\<close> the merged segments that
  start at \<open>k\<close> are those of the results taken in ascending \<open>chunk_id\<close> order, each
  result's in its own order: of two segments with equal start, the one from the lower
  chunk id comes first.
\<close>

theorem aggregate_results_sorted_stable:
  "sorted (map start (all_transcriptions (aggregate_results n rs)))
   \<and> length (all_transcriptions (aggregate_results n rs)) =
       sum_list (map (length \<circ> transcriptions) rs)
   \<and> total_segments (aggregate_results n rs) = sum_list (map (length \<circ> transcriptions) rs)
   \<and> sorted (map result_chunk_id (sort_key result_chunk_id rs))
   \<and> (\<forall>k. filter (\<lambda>s. start s = k) (all_transcriptions (aggregate_results n rs)) =
          concat (map (\<lambda>r. filter (\<lambda>s. start s = k) (transcriptions r))
                    (sort_key result_chunk_id rs)))"
proof -
  have a: "sorted (map start (all_transcriptions (aggregate_results n rs)))"
    by (simp add: all_transcriptions_aggregate)
  have b: "length (all_transcriptions (aggregate_results n rs)) =
       sum_list (map (length \<circ> transcriptions) rs)"
    by (simp add: all_transcriptions_aggregate length_concat_sort_key)
  have c: "total_segments (aggregate_results n rs) = length (all_transcriptions (aggregate_results n rs))"
    by (simp add: aggregate_results_def Let_def)
  have d: "sorted (map result_chunk_id (sort_key result_chunk_id rs))"
    by simp
  have e: "filter (\<lambda>s. start s = k) (all_transcriptions (aggregate_results n rs)) =
          concat (map (\<lambda>r. filter (\<lambda>s. start s = k) (transcriptions r))
                    (sort_key result_chunk_id rs))" for k
    by (simp add: all_transcriptions_aggregate sort_key_stable filter_concat comp_def)
  show ?thesis using a b c d e by simp
qed

text \<open>
  Scenario B of the specification: chunk 0 with the segments a and b, chunk 1 with the
  segment c, gathered in any order, merge to a, b, c.
\<close>

lemma aggregate_results_scenario_B:
  "all_transcriptions (aggregate_results 2
     [\<lparr>result_chunk_id = 1,
       transcriptions = [\<lparr>start = 60, end_abs = 65, text_src = ''c'', translated_text = None\<rparr>],
       language = ''en''\<rparr>,
      \<lparr>result_chunk_id = 0,
       transcriptions = [\<lparr>start = 0, end_abs = 5, text_src = ''a'', translated_text = None\<rparr>,
                         \<lparr>start = 5, end_abs = 9, text_src = ''b'', translated_text = None\<rparr>],
       language = ''en''\<rparr>]) =
   [\<lparr>start = 0, end_abs = 5, text_src = ''a'', translated_text = None\<rparr>,
    \<lparr>start = 5, end_abs = 9, text_src = ''b'', translated_text = None\<rparr>,
    \<lparr>start = 60, end_abs = 65, text_src = ''c'', translated_text = None\<rparr>]"
  by (simp add: aggregate_results_def)

section \<open>Properties of the unit executor\<close>

lemma append_transcriptions_map:
  "append_transcriptions translate tgt s segments acc =
     acc @ map (transcribe_segment translate tgt s) segments"
  by (induction segments arbitrary: acc) simp_all

lemma str_nat_digit: "n < 10 \<Longrightarrow> str_nat n = [''0123456789'' ! n]"
  by (simp add: str_nat.simps)

lemma audio_chunk_path_example:
  "audio_chunk_path 1 1 = ''/mpi/workspace/chunk_1_rank_1.wav''"
  by (simp add: audio_chunk_path_def str_int_def str_nat_digit)

text \<open>
  A translation that raises does not fail the unit: the segment carries its own text.
\<close>

lemma translate_text_failure:
  "tgt \<noteq> [] \<Longrightarrow> translate tgt txt = Inl e \<Longrightarrow> translate_text translate (Some tgt) txt = Some txt"
  by (simp add: translate_text_def)

lemma process_chunk_success:
  "process_chunk rank c FfmpegDone (Inr (segments, info)) translate tgt files =
     (Inr \<lparr>result_chunk_id = chunk_id c,
           transcriptions = map (transcribe_segment translate tgt (start_time c)) segments,
           language = (case info of Some l \<Rightarrow> l | None \<Rightarrow> ''unknown'')\<rparr>,
      files - {audio_chunk_path (chunk_id c) rank})"
  by (simp add: process_chunk_def append_transcriptions_map Let_def)

text \<open>
  Claim C5 (as the code has it). \<open>process_chunk\<close> returns a unit result exactly when
  ffmpeg and the transcription both succeeded. When the transcription raises, the
  exception is the outcome of \<open>process_chunk\<close>, whatever the chunk: no unit result with
  a failed status is built.
\<close>

theorem process_chunk_transcription_error_propagates:
  "((\<exists>r. fst (process_chunk rank c ffmpeg transcribed translate tgt files) = Inr r)
      \<longleftrightarrow> ffmpeg = FfmpegDone \<and> (\<exists>x. transcribed = Inr x))
   \<and> fst (process_chunk rank c FfmpegDone (Inl e) translate tgt files) = Inl e"
  by (cases ffmpeg; cases transcribed) (auto simp: process_chunk_def Let_def)

text \<open>
  The claim as the specification states it fails: with a transcription that raises, the
  outcome is the exception, not a unit result.
\<close>

theorem process_chunk_raises_on_transcription_failure:
  "fst (process_chunk 1 example_chunk FfmpegDone
          (Inl (PyException ''transcription failed'')) translate_offline None {}) =
     Inl (PyException ''transcription failed'')"
  by (simp add: process_chunk_def)

text \<open>
  The audio file is deleted when the function runs to its end, and only then.
\<close>

lemma process_chunk_success_deletes_audio:
  "audio_chunk_path (chunk_id c) rank \<notin>
     snd (process_chunk rank c FfmpegDone (Inr x) translate tgt files)"
  by (cases x) (simp add: process_chunk_success)

lemma process_chunk_failure_keeps_audio:
  "audio_chunk_path (chunk_id c) rank \<in>
     snd (process_chunk rank c FfmpegDone (Inl e) translate tgt files)"
  by (simp add: process_chunk_def Let_def)

text \<open>
  Claim C6 fails on the code. On rank 1, chunk 1, in an empty workspace, with ffmpeg
  done and a transcription that raises, \<open>process_chunk\<close> ends with the exception and
  the extracted audio file is still there.
\<close>

theorem process_chunk_leaks_audio_on_transcription_failure:
  "process_chunk 1 example_chunk FfmpegDone
     (Inl (PyException ''transcription failed'')) translate_offline None {} =
   (Inl (PyException ''transcription failed''), {''/mpi/workspace/chunk_1_rank_1.wav''})"
  by (simp add: process_chunk_def example_chunk_def audio_chunk_path_example)

section \<open>Properties of the job manager\<close>

lemma status_value_not_empty: "status_value s \<noteq> []"
  by (cases s) simp_all

lemma apply_update_fields:
  "job_id (apply_update j s p m r e now) = job_id j"
  "video_filename (apply_update j s p m r e now) = video_filename j"
  "target_language (apply_update j s p m r e now) = target_language j"
  "created_at (apply_update j s p m r e now) = created_at j"
  "updated_at (apply_update j s p m r e now) = now"
  "status (apply_update j s p m r e now) =
     (case s of None \<Rightarrow> status j | Some v \<Rightarrow> status_value v)"
  "progress (apply_update j s p m r e now) = (case p of None \<Rightarrow> progress j | Some v \<Rightarrow> v)"
  "message (apply_update j s p m r e now) = (if truthy m then the m else message j)"
  "result (apply_update j s p m r e now) = (if truthy r then r else result j)"
  "error (apply_update j s p m r e now) = (if truthy e then e else error j)"
  by (simp_all add: apply_update_def Let_def status_value_not_empty split: option.split)

text \<open>
  An update of a job that the manager holds, when the store is reached, is stored, and
  the job read afterwards is the updated one.
\<close>

lemma update_job_stored:
  assumes "get_job mgr get_ok jid = Some j" and "store_reached mgr set_ok"
  shows "\<exists>mgr'. update_job mgr get_ok set_ok now jid s p m r e = (True, mgr')
           \<and> get_job mgr' True jid = Some (apply_update j s p m r e now)"
proof (cases mgr)
  case (Redis store)
  then show ?thesis using assms by (simp add: update_job_def get_job_def Let_def)
next
  case (InMemory jobs)
  then show ?thesis using assms by (simp add: update_job_def get_job_def Let_def)
qed

lemma create_job_stored:
  assumes "store_reached mgr ok"
  shows "\<exists>mgr1. create_job mgr ok uuid now1 now2 filename target = Inr (uuid, mgr1)
           \<and> store_reached mgr1 b = store_reached mgr b
           \<and> get_job mgr1 True uuid =
                 Some \<lparr>job_id = uuid, status = ''pending'', video_filename = filename,
                       target_language = target, created_at = now1, updated_at = now2,
                       progress = 0, message = ''Job created, waiting to start...'',
                       result = None, error = None\<rparr>"
proof (cases mgr)
  case (Redis store)
  then show ?thesis using assms by (simp add: create_job_def get_job_def Let_def)
next
  case (InMemory jobs)
  then show ?thesis using assms by (simp add: create_job_def get_job_def Let_def)
qed

lemma get_job_reached:
  "store_reached mgr b \<Longrightarrow> get_job mgr b jid = get_job mgr True jid"
  by (cases mgr) (simp_all add: get_job_def)

text \<open>
  Claim C3 (as the code has it). \<open>update_job\<close> does not look at the current status. On a
  job that is completed or failed it does what it does on any job: a supplied status and
  a supplied progress are written, a supplied message, result or error is written when
  it is not empty, \<open>updated_at\<close> is refreshed, and only the fields for which nothing (or
  an empty value) is supplied, with \<open>job_id\<close>, \<open>video_filename\<close>,
  \<open>target_language\<close> and \<open>created_at\<close>, keep their values.
\<close>

theorem update_job_on_terminal_job:
  assumes "get_job mgr get_ok jid = Some j" and "terminal j" and "store_reached mgr set_ok"
  shows "\<exists>mgr' j'. update_job mgr get_ok set_ok now jid s p m r e = (True, mgr')
           \<and> get_job mgr' True jid = Some j'
           \<and> job_id j' = job_id j \<and> video_filename j' = video_filename j
           \<and> target_language j' = target_language j \<and> created_at j' = created_at j
           \<and> updated_at j' = now
           \<and> status j' = (case s of None \<Rightarrow> status j | Some v \<Rightarrow> status_value v)
           \<and> progress j' = (case p of None \<Rightarrow> progress j | Some v \<Rightarrow> v)
           \<and> message j' = (if truthy m then the m else message j)
           \<and> result j' = (if truthy r then r else result j)
           \<and> error j' = (if truthy e then e else error j)"
proof -
  obtain mgr' where
    "update_job mgr get_ok set_ok now jid s p m r e = (True, mgr')"
    "get_job mgr' True jid = Some (apply_update j s p m r e now)"
    using update_job_stored [OF assms(1) assms(3)] by blast
  then show ?thesis by (simp add: apply_update_fields)
qed

theorem update_job_on_terminal_job_witness:
  "get_job (InMemory [''j1'' \<mapsto> completed_job]) True ''j1'' = Some completed_job
   \<and> terminal completed_job
   \<and> store_reached (InMemory [''j1'' \<mapsto> completed_job]) True
   \<and> (\<exists>mgr' j'. update_job (InMemory [''j1'' \<mapsto> completed_job]) True True
                    ''2024-01-01T00:06:00'' ''j1'' (Some PROCESSING) (Some 10) None None None
                  = (True, mgr')
          \<and> get_job mgr' True ''j1'' = Some j'
          \<and> status j' = ''processing'' \<and> progress j' = 10
          \<and> message j' = ''Done'' \<and> updated_at j' = ''2024-01-01T00:06:00'')"
proof -
  have h1: "get_job (InMemory [''j1'' \<mapsto> completed_job]) True ''j1'' = Some completed_job"
    by (simp add: get_job_def)
  have h2: "terminal completed_job"
    by (simp add: terminal_def completed_job_def)
  have h3: "store_reached (InMemory [''j1'' \<mapsto> completed_job]) True"
    by simp
  obtain mgr' j' where u:
    "update_job (InMemory [''j1'' \<mapsto> completed_job]) True True
       ''2024-01-01T00:06:00'' ''j1'' (Some PROCESSING) (Some 10) None None None = (True, mgr')"
    "get_job mgr' True ''j1'' = Some j'"
    "updated_at j' = ''2024-01-01T00:06:00''"
    "status j' = (case Some PROCESSING of None \<Rightarrow> status completed_job | Some v \<Rightarrow> status_value v)"
    "progress j' = (case Some 10 of None \<Rightarrow> progress completed_job | Some v \<Rightarrow> v)"
    "message j' = (if truthy None then the None else message completed_job)"
    using update_job_on_terminal_job [OF h1 h2 h3,
        of "''2024-01-01T00:06:00''" "Some PROCESSING" "Some 10" None None None]
    by auto
  have "status j' = ''processing''" "progress j' = 10" "message j' = ''Done''"
    using u(4,5,6) by (simp_all add: completed_job_def)
  then show ?thesis using h1 h2 h3 u(1,2,3) by blast
qed

text \<open>
  The claim as the specification states it fails: a completed job is put back to
  \<open>processing\<close> with progress 10 by one call of \<open>update_job\<close>.
\<close>

theorem update_job_changes_completed_job:
  "terminal completed_job
   \<and> update_job (InMemory [''j1'' \<mapsto> completed_job]) True True
        ''2024-01-01T00:06:00'' ''j1'' (Some PROCESSING) (Some 10) None None None =
      (True, InMemory [''j1'' \<mapsto>
         completed_job\<lparr>status := ''processing'', progress := 10,
                         updated_at := ''2024-01-01T00:06:00''\<rparr>])
   \<and> completed_job\<lparr>status := ''processing'', progress := 10,
                      updated_at := ''2024-01-01T00:06:00''\<rparr> \<noteq> completed_job"
  by (simp add: terminal_def completed_job_def update_job_def get_job_def apply_update_def)

text \<open>
  Claim C10. On a job that the manager holds, when the store is reached, \<open>update_job\<close>
  returns true and refreshes \<open>updated_at\<close>; a progress of 0 is written, while an empty
  message, an empty result dict and an empty error leave the message, the result and
  the error as they were.
\<close>

theorem update_job_falsy_values:
  assumes "get_job mgr get_ok jid = Some j" and "store_reached mgr set_ok"
  shows "\<exists>mgr' j'. update_job mgr get_ok set_ok now jid s p m r e = (True, mgr')
           \<and> get_job mgr' True jid = Some j'
           \<and> updated_at j' = now
           \<and> (p = Some 0 \<longrightarrow> progress j' = 0)
           \<and> (m = Some [] \<longrightarrow> message j' = message j)
           \<and> (r = Some [] \<longrightarrow> result j' = result j)
           \<and> (e = Some [] \<longrightarrow> error j' = error j)"
proof -
  obtain mgr' where
    "update_job mgr get_ok set_ok now jid s p m r e = (True, mgr')"
    "get_job mgr' True jid = Some (apply_update j s p m r e now)"
    using update_job_stored [OF assms] by blast
  then show ?thesis by (auto simp: apply_update_fields)
qed

theorem update_job_falsy_values_witness:
  "get_job (InMemory [''j1'' \<mapsto> completed_job]) True ''j1'' = Some completed_job
   \<and> store_reached (InMemory [''j1'' \<mapsto> completed_job]) True
   \<and> (\<exists>mgr' j'. update_job (InMemory [''j1'' \<mapsto> completed_job]) True True
                    ''2024-01-01T00:06:00'' ''j1'' None (Some 0) (Some []) (Some []) (Some [])
                  = (True, mgr')
          \<and> get_job mgr' True ''j1'' = Some j'
          \<and> updated_at j' = ''2024-01-01T00:06:00''
          \<and> progress j' = 0
          \<and> message j' = ''Done''
          \<and> result j' = Some [(''total_segments'', JNumber 3)]
          \<and> error j' = None)"
proof -
  have h1: "get_job (InMemory [''j1'' \<mapsto> completed_job]) True ''j1'' = Some completed_job"
    by (simp add: get_job_def)
  have h2: "store_reached (InMemory [''j1'' \<mapsto> completed_job]) True"
    by simp
  obtain mgr' j' where u:
    "update_job (InMemory [''j1'' \<mapsto> completed_job]) True True
       ''2024-01-01T00:06:00'' ''j1'' None (Some 0) (Some []) (Some []) (Some []) = (True, mgr')"
    "get_job mgr' True ''j1'' = Some j'"
    "updated_at j' = ''2024-01-01T00:06:00''"
    "progress j' = 0"
    "message j' = message completed_job"
    "result j' = result completed_job"
    "error j' = error completed_job"
    using update_job_falsy_values [OF h1 h2,
        of "''2024-01-01T00:06:00''" None "Some 0" "Some []" "Some []" "Some []"]
    by auto
  have "message j' = ''Done''" "result j' = Some [(''total_segments'', JNumber 3)]"
    "error j' = None"
    using u(5,6,7) by (simp_all add: completed_job_def)
  then show ?thesis using h1 h2 u(1,2,3,4) by blast
qed

text \<open>
  Claim C8 (as the code has it). A job is created, then updated with a status, a
  progress, and a message, a result and an error that are not empty, then read; when
  the store is reached by each of these operations, the job read holds exactly the
  status, progress, message, result and error of the update, with \<open>updated_at\<close> of the
  update and \<open>job_id\<close>, \<open>video_filename\<close>, \<open>target_language\<close> and \<open>created_at\<close> of the
  creation.
\<close>

theorem create_update_get_round_trip:
  assumes "store_reached mgr ok1" and "store_reached mgr ok2" and "store_reached mgr ok3"
    and "store_reached mgr ok4"
    and "m \<noteq> []" and "r \<noteq> []" and "e \<noteq> []"
  shows "\<exists>mgr1 mgr2.
           create_job mgr ok1 uuid now1 now2 filename target = Inr (uuid, mgr1)
           \<and> update_job mgr1 ok2 ok3 now3 uuid (Some s) (Some p) (Some m) (Some r) (Some e)
               = (True, mgr2)
           \<and> get_job mgr2 ok4 uuid =
               Some \<lparr>job_id = uuid, status = status_value s, video_filename = filename,
                     target_language = target, created_at = now1, updated_at = now3,
                     progress = p, message = m, result = Some r, error = Some e\<rparr>"
proof (cases mgr)
  case (Redis store)
  then show ?thesis using assms
    by (simp add: create_job_def update_job_def get_job_def apply_update_def Let_def
        status_value_not_empty)
next
  case (InMemory jobs)
  then show ?thesis using assms
    by (simp add: create_job_def update_job_def get_job_def apply_update_def Let_def
        status_value_not_empty)
qed

theorem create_update_get_round_trip_witness:
  "store_reached (Redis Map.empty) True
   \<and> ''Done'' \<noteq> [] \<and> [(''total_segments'', JNumber 3)] \<noteq> [] \<and> ''none'' \<noteq> []
   \<and> (\<exists>mgr1 mgr2.
         create_job (Redis Map.empty) True ''j1'' ''t1'' ''t2'' ''video.mp4'' (Some ''id'')
           = Inr (''j1'', mgr1)
         \<and> update_job mgr1 True True ''t3'' ''j1'' (Some COMPLETED) (Some 100) (Some ''Done'')
             (Some [(''total_segments'', JNumber 3)]) (Some ''none'') = (True, mgr2)
         \<and> get_job mgr2 True ''j1'' =
             Some \<lparr>job_id = ''j1'', status = ''completed'', video_filename = ''video.mp4'',
                   target_language = Some ''id'', created_at = ''t1'', updated_at = ''t3'',
                   progress = 100, message = ''Done'',
                   result = Some [(''total_segments'', JNumber 3)], error = Some ''none''\<rparr>)"
proof -
  have h: "store_reached (Redis Map.empty) True" by simp
  have hm: "''Done'' \<noteq> []" by simp
  have hr: "[(''total_segments'', JNumber 3)] \<noteq> []" by simp
  have he: "''none'' \<noteq> []" by simp
  show ?thesis
    using h hm hr he
      create_update_get_round_trip [OF h h h h hm hr he,
        of "''j1''" "''t1''" "''t2''" "''video.mp4''" "Some ''id''" "''t3''" COMPLETED 100]
    by simp
qed

text \<open>
  The claim as the specification states it fails: the update supplies a value for every
  field, with an empty message, an empty result dict and an empty error, and the job
  read afterwards still holds the message, the result and the error of the creation.
\<close>

theorem create_update_get_keeps_stale_fields:
  "create_job (InMemory Map.empty) True ''j1'' ''t1'' ''t2'' ''video.mp4'' None =
     Inr (''j1'', InMemory [''j1'' \<mapsto>
       \<lparr>job_id = ''j1'', status = ''pending'', video_filename = ''video.mp4'',
        target_language = None, created_at = ''t1'', updated_at = ''t2'', progress = 0,
        message = ''Job created, waiting to start...'', result = None, error = None\<rparr>])
   \<and> get_job (snd (update_job (InMemory [''j1'' \<mapsto>
       \<lparr>job_id = ''j1'', status = ''pending'', video_filename = ''video.mp4'',
        target_language = None, created_at = ''t1'', updated_at = ''t2'', progress = 0,
        message = ''Job created, waiting to start...'', result = None, error = None\<rparr>])
       True True ''t3'' ''j1'' (Some COMPLETED) (Some 100) (Some []) (Some []) (Some [])))
       True ''j1'' =
     Some \<lparr>job_id = ''j1'', status = ''completed'', video_filename = ''video.mp4'',
           target_language = None, created_at = ''t1'', updated_at = ''t3'', progress = 100,
           message = ''Job created, waiting to start...'', result = None, error = None\<rparr>"
  by (simp add: create_job_def update_job_def get_job_def apply_update_def)

section \<open>Properties of the wrapper\<close>

text \<open>
  With MPI enabled, a run that exits with 0 and leaves a readable result file hands that
  result to the caller, whatever the duration of the video: \<open>process_video_parallel\<close>
  does not read the duration.
\<close>

lemma process_video_parallel_success:
  "mpi_enabled svc \<Longrightarrow> mpirun (mpi_command svc path tgt n) = Exited 0 \<Longrightarrow>
   process_video_parallel svc path tgt n True mpirun (Some (Inr res)) = Some res"
  by (simp add: process_video_parallel_def)

text \<open>
  Claim C9 (as the code has it). \<open>should_use_mpi\<close> returns true exactly when MPI is
  enabled and the duration could be read and is above 60 seconds. When MPI is not
  enabled, \<open>process_video_parallel\<close> returns \<open>None\<close> whatever its arguments, the number
  of workers and the outcome a run would have: nothing is executed, with one worker or
  with several.
\<close>

theorem should_use_mpi_exactly_when:
  "(should_use_mpi svc duration \<longleftrightarrow> mpi_enabled svc \<and> (\<exists>d. duration = Inr d \<and> 60 < d))
   \<and> process_video_parallel (svc\<lparr>mpi_enabled := False\<rparr>) path tgt n prepared mpirun res_file
       = None"
  by (cases duration) (simp_all add: should_use_mpi_def process_video_parallel_def)

text \<open>
  The claim as the specification states it fails. Scenario C: MPI is not available and
  the video lasts 200 seconds. \<open>should_use_mpi\<close> is false, and the wrapper asked for one
  worker returns \<open>None\<close>, not a result of the shape of the multi-worker path, even where
  a run would have succeeded.
\<close>

theorem process_video_parallel_no_single_chunk_fallback:
  "should_use_mpi (new_service False) (Inr 200) = False
   \<and> process_video_parallel (new_service False) ''/videos/talk.mp4'' None 1 True
        mpirun_exits_0 (Some (Inr example_aggregate)) = None"
  by (simp add: should_use_mpi_def process_video_parallel_def new_service_def)

section \<open>Properties of one rank of the parallel run\<close>







end
